theory Spec2Isabelle
  imports Complex_Main
begin

section \<open>The fixture generator \<^verbatim>\<open>generate_test_data.cpp\<close>\<close>

text \<open>
  The program is one helper, \<^verbatim>\<open>writeTestCase\<close>, and \<^verbatim>\<open>main\<close>, which calls it ten
  times. A \<^verbatim>\<open>std::string\<close> is a sequence of 8-bit characters and so is a HOL
  \<^typ>\<open>string\<close>; it is used for names, paths, inputs and compressed bytes alike, as
  in the source.
\<close>

subsection \<open>What the program prints\<close>

text \<open>
  The value of \<^verbatim>\<open>(double)a / b\<close> for two \<^verbatim>\<open>size_t\<close> operands. The division is
  IEEE-754 division of doubles: a zero divisor does not trap, it gives an infinity
  for a non-zero dividend and a NaN for \<open>0 / 0\<close>. The rounding of a finite quotient to
  the nearest double is abstracted: \<open>Finite q\<close> stands for the double nearest to \<open>q\<close>.
\<close>

datatype double = Finite rat | PosInf | NaN

definition fdiv :: "nat \<Rightarrow> nat \<Rightarrow> double" where
  "fdiv a b =
     (if b = 0 then (if a = 0 then NaN else PosInf)
      else Finite (of_nat a / of_nat b))"

text \<open>
  Standard output is the sequence of operands that were sent to \<^verbatim>\<open>std::cout\<close> with
  \<^verbatim>\<open><<\<close>: a string, a \<^verbatim>\<open>size_t\<close>, a \<^verbatim>\<open>double\<close>, or \<^verbatim>\<open>std::endl\<close>.
\<close>

datatype token = Str string | Size nat | Dbl double | Endl

subsection \<open>Files and the output stream\<close>

text \<open>
  The state of the run: the files that exist, by path, with their contents, and what
  has been printed so far.
\<close>

record world =
  files :: "string \<rightharpoonup> string"
  cout :: "token list"

text \<open>
  What the operating system does when a path is opened for writing and written to:
  the open fails (a missing directory, no permission); or the open succeeds and the
  write stops after some number of bytes (a full disk); or all of it succeeds. The
  environment of a run gives that outcome for every path.
\<close>

datatype io_outcome = OpenFails | WriteStops nat | Succeeds

type_synonym env = "string \<Rightarrow> io_outcome"

text \<open>
  A \<^verbatim>\<open>std::ofstream\<close>: the path it was opened on and whether the stream is still
  good. Its exception mask is the default one, so no operation throws: a failure
  only clears \<open>good\<close>, and every later operation on the stream does nothing.
\<close>

record ofstream =
  target :: string
  good :: bool

definition ofstream_open :: "env \<Rightarrow> string \<Rightarrow> world \<Rightarrow> ofstream \<times> world" where
  \<comment> \<open>\<^verbatim>\<open>std::ofstream file(filename, std::ios::binary)\<close>: creates the file or truncates it\<close>
  "ofstream_open E p w =
     (if E p = OpenFails then (\<lparr>target = p, good = False\<rparr>, w)
      else (\<lparr>target = p, good = True\<rparr>, w\<lparr>files := (files w)(p \<mapsto> [])\<rparr>))"

text \<open>A write adds bytes after those the file already holds.\<close>

definition appended :: "string option \<Rightarrow> string \<Rightarrow> string" where
  "appended old d = (case old of None \<Rightarrow> d | Some c \<Rightarrow> c @ d)"

definition ofstream_write :: "env \<Rightarrow> ofstream \<Rightarrow> string \<Rightarrow> world \<Rightarrow> ofstream \<times> world" where
  \<comment> \<open>\<^verbatim>\<open>file.write(data, size)\<close>\<close>
  "ofstream_write E f d w =
     (if \<not> good f then (f, w)
      else (case E (target f) of
              WriteStops k \<Rightarrow>
                (f\<lparr>good := False\<rparr>,
                 w\<lparr>files := (files w)(target f \<mapsto> appended (files w (target f)) (take k d))\<rparr>)
            | Succeeds \<Rightarrow>
                (f, w\<lparr>files := (files w)(target f \<mapsto> appended (files w (target f)) d)\<rparr>)
            | OpenFails \<Rightarrow> (f\<lparr>good := False\<rparr>, w)))"

definition ofstream_close :: "ofstream \<Rightarrow> world \<Rightarrow> world" where
  \<comment> \<open>\<^verbatim>\<open>file.close()\<close>: the bytes are already accounted for by the write\<close>
  "ofstream_close f w = w"

definition cout_write :: "token list \<Rightarrow> world \<Rightarrow> world" where
  "cout_write ts w = w\<lparr>cout := cout w @ ts\<rparr>"

subsection \<open>\<^verbatim>\<open>writeTestCase\<close>\<close>

text \<open>
  The compression primitive \<^verbatim>\<open>snappy::Compress(data, size, &compressed)\<close> is a
  parameter of the model: a function from the input to the \<^verbatim>\<open>size_t\<close> it returns and
  the contents it leaves in \<^verbatim>\<open>compressed\<close>. It is a function because the primitive is
  deterministic for a given input. The source discards the returned value.
\<close>

type_synonym compressor = "string \<Rightarrow> nat \<times> string"

definition writeTestCase ::
  "compressor \<Rightarrow> env \<Rightarrow> string \<Rightarrow> string \<Rightarrow> world \<Rightarrow> world" where
  "writeTestCase Compress E name input w0 =
     (let compressed = snd (Compress input);
          filename = ''Tests/SnappySwiftTests/TestData/'' @ name @ ''.snappy'';
          (file, w) = ofstream_open E filename w0;
          (file, w) = ofstream_write E file compressed w;
          w = ofstream_close file w;
          w = cout_write [Str name, Str '':'', Endl] w;
          w = cout_write [Str ''  Input size: '', Size (length input), Str '' bytes'', Endl] w;
          w = cout_write
                [Str ''  Compressed size: '', Size (length compressed), Str '' bytes'', Endl] w;
          w = cout_write
                [Str ''  Ratio: '', Dbl (fdiv (length input) (length compressed)), Str ''x'',
                 Endl] w;
          w = cout_write [Str ''  Saved to: '', Str filename, Endl] w;
          w = cout_write [Endl] w
      in w)"

subsection \<open>\<^verbatim>\<open>main\<close>\<close>

text \<open>The three loops that build inputs, each with its counter and its accumulator.\<close>

function pattern_loop :: "int \<Rightarrow> string \<Rightarrow> string" where
  "pattern_loop i pattern =
     (if i < 20 then pattern_loop (i + 1) (pattern @ ''abcdefgh'') else pattern)"
  by pat_completeness auto
termination
  by (relation "measure (\<lambda>(i, pattern). nat (20 - i))") auto

function ascii_loop :: "int \<Rightarrow> string \<Rightarrow> string" where
  "ascii_loop i ascii =
     (if i < 127 then ascii_loop (i + 1) (ascii @ [char_of i]) else ascii)"
  by pat_completeness auto
termination
  by (relation "measure (\<lambda>(i, ascii). nat (127 - i))") auto

text \<open>\<^verbatim>\<open>std::to_string\<close> on an \<^verbatim>\<open>int\<close>: the decimal digits, after a minus sign if negative.\<close>

fun decimal :: "nat \<Rightarrow> string" where
  "decimal n =
     (if n < 10 then [char_of (48 + n)]
      else decimal (n div 10) @ [char_of (48 + n mod 10)])"

definition to_string :: "int \<Rightarrow> string" where
  "to_string i = (if i < 0 then CHR ''-'' # decimal (nat (- i)) else decimal (nat i))"

function numbers_loop :: "int \<Rightarrow> string \<Rightarrow> string" where
  "numbers_loop i numbers =
     (if i < 100 then numbers_loop (i + 1) (numbers @ (to_string i @ '' '')) else numbers)"
  by pat_completeness auto
termination
  by (relation "measure (\<lambda>(i, numbers). nat (100 - i))") auto

text \<open>The loops are unfolded on demand only, never by the simplifier on its own.\<close>

declare pattern_loop.simps [simp del]
declare ascii_loop.simps [simp del]
declare decimal.simps [simp del]
declare numbers_loop.simps [simp del]

definition main :: "compressor \<Rightarrow> env \<Rightarrow> world \<Rightarrow> int \<times> world" where
  "main Compress E w0 =
     (let w = cout_write [Str ''Generating Snappy test data...'', Endl] w0;
          w = cout_write [Endl] w;
          w = writeTestCase Compress E ''empty'' '''' w;
          w = writeTestCase Compress E ''single_byte'' ''A'' w;
          w = writeTestCase Compress E ''hello'' ''Hello, World!'' w;
          w = writeTestCase Compress E ''repeated'' (replicate 100 CHR ''a'') w;
          pattern = pattern_loop 0 '''';
          w = writeTestCase Compress E ''pattern'' pattern w;
          longer =
            ''The quick brown fox jumps over the lazy dog. '' @
            ''The quick brown fox jumps over the lazy dog. '' @
            ''The quick brown fox jumps over the lazy dog. '' @
            ''The quick brown fox jumps over the lazy dog.'';
          w = writeTestCase Compress E ''longer_text'' longer w;
          ascii = ascii_loop 32 '''';
          w = writeTestCase Compress E ''ascii'' ascii w;
          large = replicate 10000 CHR ''x'';
          w = writeTestCase Compress E ''large'' large w;
          mixed = ''AAAAAAAbbbbbCCCCCdddEEFF1234567890'';
          w = writeTestCase Compress E ''mixed'' mixed w;
          numbers = numbers_loop 0 '''';
          w = writeTestCase Compress E ''numbers'' numbers w;
          w = cout_write [Str ''Test data generation complete!'', Endl] w
      in (0, w))"

section \<open>Notions used to state the properties\<close>

text \<open>
  The path \<^verbatim>\<open>writeTestCase\<close> derives from a name, the block of tokens it prints for an
  entry, and what a path holds after the open and the write, given the outcome the
  environment dictates and what the path held before.
\<close>

definition filename_of :: "string \<Rightarrow> string" where
  "filename_of name = ''Tests/SnappySwiftTests/TestData/'' @ name @ ''.snappy''"

definition report_block :: "compressor \<Rightarrow> string \<Rightarrow> string \<Rightarrow> token list" where
  "report_block Compress name input =
     [Str name, Str '':'', Endl,
      Str ''  Input size: '', Size (length input), Str '' bytes'', Endl,
      Str ''  Compressed size: '', Size (length (snd (Compress input))), Str '' bytes'', Endl,
      Str ''  Ratio: '', Dbl (fdiv (length input) (length (snd (Compress input)))), Str ''x'', Endl,
      Str ''  Saved to: '', Str (filename_of name), Endl,
      Endl]"

definition stored :: "io_outcome \<Rightarrow> string \<Rightarrow> string option \<Rightarrow> string option" where
  "stored out d old =
     (case out of OpenFails \<Rightarrow> old | WriteStops k \<Rightarrow> Some (take k d) | Succeeds \<Rightarrow> Some d)"

text \<open>
  The ten calls of \<^verbatim>\<open>main\<close>, as the list of their arguments in call order, and the
  effect of calling \<^verbatim>\<open>writeTestCase\<close> on each element of such a list in turn. That
  \<^verbatim>\<open>main\<close> is this pass over \<open>corpus\<close>, between its two messages, is lemma
  \<open>main_runs_corpus\<close> below.
\<close>

definition corpus :: "(string \<times> string) list" where
  "corpus =
     [(''empty'', ''''),
      (''single_byte'', ''A''),
      (''hello'', ''Hello, World!''),
      (''repeated'', replicate 100 CHR ''a''),
      (''pattern'', pattern_loop 0 ''''),
      (''longer_text'',
         ''The quick brown fox jumps over the lazy dog. '' @
         ''The quick brown fox jumps over the lazy dog. '' @
         ''The quick brown fox jumps over the lazy dog. '' @
         ''The quick brown fox jumps over the lazy dog.''),
      (''ascii'', ascii_loop 32 ''''),
      (''large'', replicate 10000 CHR ''x''),
      (''mixed'', ''AAAAAAAbbbbbCCCCCdddEEFF1234567890''),
      (''numbers'', numbers_loop 0 '''')]"

fun run_corpus :: "compressor \<Rightarrow> env \<Rightarrow> (string \<times> string) list \<Rightarrow> world \<Rightarrow> world" where
  "run_corpus C E [] w = w"
| "run_corpus C E ((n, i) # es) w = run_corpus C E es (writeTestCase C E n i w)"

text \<open>Whether a path lies in the output directory.\<close>

definition in_output_dir :: "string \<Rightarrow> bool" where
  "in_output_dir p =
     (take (length ''Tests/SnappySwiftTests/TestData/'') p = ''Tests/SnappySwiftTests/TestData/'')"

text \<open>The two messages of \<^verbatim>\<open>main\<close>, before and after the ten calls.\<close>

definition banner :: "token list" where
  "banner = [Str ''Generating Snappy test data...'', Endl, Endl]"

definition footer :: "token list" where
  "footer = [Str ''Test data generation complete!'', Endl]"

subsection \<open>Concrete runs\<close>

text \<open>
  A starting state with no file and nothing printed; two compressors (one that stores
  its input unchanged, one that stores a length byte and then the input); and four
  environments: one
  where every open and write succeeds, one where the output directory is missing so
  that every open fails, one where only the first artifact cannot be opened, and one
  where every write stops before its first byte.
\<close>

definition fresh :: world where
  "fresh = \<lparr>files = Map.empty, cout = []\<rparr>"

definition raw_copy :: compressor where
  "raw_copy s = (length s, s)"


definition all_ok :: env where
  "all_ok p = Succeeds"

definition no_directory :: env where
  "no_directory p = OpenFails"

definition first_fails :: env where
  "first_fails p =
     (if p = ''Tests/SnappySwiftTests/TestData/empty.snappy'' then OpenFails else Succeeds)"

definition disk_full :: env where
  "disk_full p = WriteStops 0"

section \<open>The run as a pass over the corpus\<close>

lemma writeTestCase_cout:
  "cout (writeTestCase C E n i w) = cout w @ report_block C n i"
  by (simp add: writeTestCase_def report_block_def filename_of_def ofstream_open_def
      ofstream_write_def ofstream_close_def cout_write_def Let_def split: io_outcome.splits)

lemma writeTestCase_files:
  "files (writeTestCase C E n i w) =
     (files w)(filename_of n := stored (E (filename_of n)) (snd (C i)) (files w (filename_of n)))"
  by (auto simp add: writeTestCase_def stored_def filename_of_def ofstream_open_def
      ofstream_write_def ofstream_close_def cout_write_def appended_def Let_def split: io_outcome.splits)

lemma filename_of_eq [simp]: "filename_of a = filename_of b \<longleftrightarrow> a = b"
  by (simp add: filename_of_def)

lemma main_runs_corpus:
  "main C E w =
     (0, cout_write footer (run_corpus C E corpus (cout_write banner w)))"
  by (simp add: main_def corpus_def banner_def footer_def cout_write_def Let_def)

lemma run_corpus_cout:
  "cout (run_corpus C E es w) = cout w @ concat (map (\<lambda>(n, i). report_block C n i) es)"
  by (induction es arbitrary: w) (auto simp: writeTestCase_cout)

lemma run_corpus_files_other:
  "p \<notin> filename_of ` fst ` set es \<Longrightarrow> files (run_corpus C E es w) p = files w p"
  by (induction es arbitrary: w) (auto simp: writeTestCase_files)

lemma run_corpus_files_entry:
  "distinct (map fst es) \<Longrightarrow> (n, i) \<in> set es \<Longrightarrow>
   files (run_corpus C E es w) (filename_of n) =
     stored (E (filename_of n)) (snd (C i)) (files w (filename_of n))"
proof (induction es arbitrary: w)
  case Nil
  then show ?case by simp
next
  case (Cons e es)
  obtain m j where e: "e = (m, j)" by (cases e)
  show ?case
  proof (cases "(n, i) = (m, j)")
    case True
    from Cons.prems e True have "n \<notin> fst ` set es"
      by simp
    then have "filename_of n \<notin> filename_of ` fst ` set es"
      by (simp add: image_iff)
    then show ?thesis
      using True e by (simp add: run_corpus_files_other writeTestCase_files)
  next
    case False
    with Cons.prems e have in_es: "(n, i) \<in> set es" and ne: "m \<noteq> n"
      by (auto simp: image_iff)
    from Cons.prems have "distinct (map fst es)" by simp
    from Cons.IH [OF this in_es] ne e show ?thesis
      by (simp add: writeTestCase_files)
  qed
qed

lemma corpus_names:
  "map fst corpus =
     [''empty'', ''single_byte'', ''hello'', ''repeated'', ''pattern'', ''longer_text'',
      ''ascii'', ''large'', ''mixed'', ''numbers'']"
  by (simp add: corpus_def)

lemma corpus_distinct: "distinct (map fst corpus)"
  unfolding corpus_names by simp

lemma main_exit: "fst (main C E w) = 0"
  by (simp add: main_runs_corpus)

lemma main_cout:
  "cout (snd (main C E w)) =
     cout w @ banner @ concat (map (\<lambda>(n, i). report_block C n i) corpus) @ footer"
  by (simp add: main_runs_corpus run_corpus_cout cout_write_def)

lemma run_corpus_files_cong:
  "files w = files w' \<Longrightarrow> files (run_corpus C E es w) = files (run_corpus C E es w')"
proof (induction es arbitrary: w w')
  case Nil
  then show ?case by simp
next
  case (Cons e es)
  obtain m j where e: "e = (m, j)" by (cases e)
  have "files (writeTestCase C E m j w) = files (writeTestCase C E m j w')"
    using Cons.prems by (simp add: writeTestCase_files)
  from Cons.IH [OF this] e show ?case by simp
qed

lemma main_files:
  "files (snd (main C E w)) = files (run_corpus C E corpus w)"
proof -
  have "files (cout_write banner w) = files w"
    by (simp add: cout_write_def)
  from run_corpus_files_cong [OF this] show ?thesis
    by (simp add: main_runs_corpus cout_write_def)
qed

lemma main_files_entry:
  "(n, i) \<in> set corpus \<Longrightarrow>
   files (snd (main C E w)) (filename_of n) =
     stored (E (filename_of n)) (snd (C i)) (files w (filename_of n))"
  by (simp add: main_files run_corpus_files_entry corpus_distinct)

lemma main_files_other:
  "p \<notin> filename_of ` fst ` set corpus \<Longrightarrow> files (snd (main C E w)) p = files w p"
  by (simp add: main_files run_corpus_files_other)

lemma main_files_dom_general:
  "dom (files (snd (main C E w))) =
     dom (files w) \<union> {filename_of n |n. n \<in> fst ` set corpus \<and> E (filename_of n) \<noteq> OpenFails}"
proof (rule set_eqI)
  fix p
  show "p \<in> dom (files (snd (main C E w))) \<longleftrightarrow>
        p \<in> dom (files w) \<union>
          {filename_of n |n. n \<in> fst ` set corpus \<and> E (filename_of n) \<noteq> OpenFails}"
  proof (cases "p \<in> filename_of ` fst ` set corpus")
    case False
    then show ?thesis
      by (auto simp: main_files_other)
  next
    case True
    then obtain n i where ni: "(n, i) \<in> set corpus" and p: "p = filename_of n"
      by auto
    from ni have "n \<in> fst ` set corpus" by force
    then show ?thesis
      using p main_files_entry [OF ni, of C E w]
      by (auto simp: stored_def dom_def split: io_outcome.splits)
  qed
qed

lemma corpus_length: "length corpus = 10"
  by (simp add: corpus_def)

lemma filename_in_output_dir: "in_output_dir (filename_of n)"
  by (simp add: in_output_dir_def filename_of_def)

lemma stored_idem: "stored out d (stored out d old) = stored out d old"
  by (simp add: stored_def split: io_outcome.splits)

lemma count_saved_block:
  "n \<noteq> ''  Saved to: '' \<Longrightarrow> count_list (report_block C n i) (Str ''  Saved to: '') = 1"
  by (simp add: report_block_def filename_of_def)

lemma count_saved_blocks:
  "''  Saved to: '' \<notin> fst ` set es \<Longrightarrow>
   count_list (concat (map (\<lambda>(n, i). report_block C n i) es)) (Str ''  Saved to: '') =
     length es"
proof (induction es)
  case Nil
  then show ?case by simp
next
  case (Cons e es)
  obtain m j where e: "e = (m, j)" by (cases e)
  from Cons.prems e have "m \<noteq> ''  Saved to: ''" and "''  Saved to: '' \<notin> fst ` set es"
    by auto
  with Cons.IH e show ?case
    by (simp add: count_saved_block)
qed

lemma main_count_saved:
  "count_list (cout (snd (main C E w))) (Str ''  Saved to: '') =
     count_list (cout w) (Str ''  Saved to: '') + 10"
proof -
  have "''  Saved to: '' \<notin> set (map fst corpus)"
    unfolding corpus_names by simp
  then have "''  Saved to: '' \<notin> fst ` set corpus"
    by simp
  from count_saved_blocks [OF this] show ?thesis
    by (simp add: main_cout corpus_length banner_def footer_def)
qed

lemma first_fails_empty: "first_fails (filename_of ''empty'') = OpenFails"
  by (simp add: first_fails_def filename_of_def)

lemma first_fails_other: "n \<noteq> ''empty'' \<Longrightarrow> first_fails (filename_of n) = Succeeds"
  by (simp add: first_fails_def filename_of_def)

lemma ascii_value: "map of_char (ascii_loop 32 '''') = [32..<127::nat]"
  by code_simp

section \<open>The claims\<close>

text \<open>
  Claim C1, as stated: a failing entry aborts the process at once with a non-zero exit
  status, and no further entry is processed. It does not hold. In the run below the
  artifact of the first entry cannot be opened and no file is made for it; the exit
  status is 0 all the same, the later entries are written, and all ten ``Saved to''
  lines are printed.
\<close>

theorem C1_abort_counterexample:
  "first_fails ''Tests/SnappySwiftTests/TestData/empty.snappy'' = OpenFails \<and>
   files (snd (main raw_copy first_fails fresh))
     ''Tests/SnappySwiftTests/TestData/empty.snappy'' = None \<and>
   fst (main raw_copy first_fails fresh) = 0 \<and>
   files (snd (main raw_copy first_fails fresh))
     ''Tests/SnappySwiftTests/TestData/single_byte.snappy'' = Some ''A'' \<and>
   files (snd (main raw_copy first_fails fresh))
     ''Tests/SnappySwiftTests/TestData/mixed.snappy'' =
       Some ''AAAAAAAbbbbbCCCCCdddEEFF1234567890'' \<and>
   count_list (cout (snd (main raw_copy first_fails fresh))) (Str ''  Saved to: '') = 10"
proof -
  have e: "(''empty'', '''') \<in> set corpus"
    and s: "(''single_byte'', ''A'') \<in> set corpus"
    and m: "(''mixed'', ''AAAAAAAbbbbbCCCCCdddEEFF1234567890'') \<in> set corpus"
    by (simp_all add: corpus_def)
  have "files (snd (main raw_copy first_fails fresh)) (filename_of ''empty'') = None"
    by (simp add: main_files_entry [OF e] stored_def first_fails_empty fresh_def)
  moreover have "files (snd (main raw_copy first_fails fresh)) (filename_of ''single_byte'') =
      Some ''A''"
    by (simp add: main_files_entry [OF s] stored_def first_fails_other raw_copy_def)
  moreover have "files (snd (main raw_copy first_fails fresh)) (filename_of ''mixed'') =
      Some ''AAAAAAAbbbbbCCCCCdddEEFF1234567890''"
    by (simp add: main_files_entry [OF m] stored_def first_fails_other raw_copy_def)
  moreover have "count_list (cout (snd (main raw_copy first_fails fresh))) (Str ''  Saved to: '') = 10"
    by (simp add: main_count_saved fresh_def)
  ultimately show ?thesis
    by (simp add: filename_of_def first_fails_def main_exit)
qed

text \<open>
  Claim C1, amended. No failure aborts the run. Whatever the compression call
  returns and whichever opens and writes fail, \<^verbatim>\<open>main\<close> returns 0, prints one
  ``Saved to'' line for each of the ten entries, and every entry whose own open and
  write succeed has its artifact written, also after an earlier entry has failed.
\<close>

theorem C1_run_never_aborts:
  "fst (main C E w) = 0 \<and>
   count_list (cout (snd (main C E w))) (Str ''  Saved to: '') =
     count_list (cout w) (Str ''  Saved to: '') + length corpus \<and>
   (\<forall>n i. (n, i) \<in> set corpus \<longrightarrow> E (filename_of n) = Succeeds \<longrightarrow>
      files (snd (main C E w)) (filename_of n) = Some (snd (C i)))"
  by (simp add: main_exit main_count_saved corpus_length main_files_entry stored_def)

theorem C1_run_never_aborts_witness:
  "fst (main raw_copy first_fails fresh) = 0 \<and>
   files (snd (main raw_copy first_fails fresh)) (filename_of ''numbers'') =
     Some (numbers_loop 0 '''')"
proof -
  have n: "(''numbers'', numbers_loop 0 '''') \<in> set corpus"
    by (simp add: corpus_def)
  have ok: "first_fails (filename_of ''numbers'') = Succeeds"
    by (simp add: first_fails_other)
  from C1_run_never_aborts [of raw_copy first_fails fresh] n ok show ?thesis
    by (simp add: raw_copy_def)
qed



text \<open>
  Claim C3. For a name \<open>n\<close> and an input \<open>i\<close>, \<^verbatim>\<open>writeTestCase\<close> touches the one path
  \<^verbatim>\<open>Tests/SnappySwiftTests/TestData/<n>.snappy\<close> and no other; where the open and
  the write succeed, the file holds exactly the bytes the compression primitive
  left for \<open>i\<close>, nothing before and nothing after. The same is true of each corpus
  entry's file at the end of \<^verbatim>\<open>main\<close>.
\<close>

theorem C3_artifact_path_and_content:
  "(E (''Tests/SnappySwiftTests/TestData/'' @ n @ ''.snappy'') = Succeeds \<longrightarrow>
      files (writeTestCase C E n i w) (''Tests/SnappySwiftTests/TestData/'' @ n @ ''.snappy'') =
        Some (snd (C i))) \<and>
   (\<forall>p. p \<noteq> ''Tests/SnappySwiftTests/TestData/'' @ n @ ''.snappy'' \<longrightarrow>
      files (writeTestCase C E n i w) p = files w p) \<and>
   ((n, i) \<in> set corpus \<longrightarrow>
    E (''Tests/SnappySwiftTests/TestData/'' @ n @ ''.snappy'') = Succeeds \<longrightarrow>
      files (snd (main C E w)) (''Tests/SnappySwiftTests/TestData/'' @ n @ ''.snappy'') =
        Some (snd (C i)))"
proof -
  have path: "''Tests/SnappySwiftTests/TestData/'' @ n @ ''.snappy'' = filename_of n"
    by (simp add: filename_of_def)
  show ?thesis
    unfolding path
    by (simp add: writeTestCase_files main_files_entry stored_def)
qed

theorem C3_artifact_path_and_content_witness:
  "files (writeTestCase raw_copy all_ok ''hello'' ''Hello, World!'' fresh)
     ''Tests/SnappySwiftTests/TestData/hello.snappy'' = Some ''Hello, World!'' \<and>
   files (writeTestCase raw_copy all_ok ''hello'' ''Hello, World!'' fresh)
     ''Tests/SnappySwiftTests/TestData/hello.snappy.crc'' = None \<and>
   files (snd (main raw_copy all_ok fresh))
     ''Tests/SnappySwiftTests/TestData/hello.snappy'' = Some ''Hello, World!''"
  using C3_artifact_path_and_content [of all_ok "''hello''" raw_copy "''Hello, World!''" fresh]
  by (simp add: all_ok_def raw_copy_def fresh_def corpus_def)

text \<open>
  Claim C4. The block printed for an entry gives the length of its input as the input
  size and the length of the compressed bytes as the compressed size. The output of
  \<^verbatim>\<open>main\<close> is its banner, the blocks of the corpus entries in order, and its last
  message; the first block, for the empty input, gives an input size of 0.
\<close>

theorem C4_report_sizes:
  "cout (writeTestCase C E n i w) =
     cout w @
     [Str n, Str '':'', Endl,
      Str ''  Input size: '', Size (length i), Str '' bytes'', Endl,
      Str ''  Compressed size: '', Size (length (snd (C i))), Str '' bytes'', Endl,
      Str ''  Ratio: '', Dbl (fdiv (length i) (length (snd (C i)))), Str ''x'', Endl,
      Str ''  Saved to: '', Str (''Tests/SnappySwiftTests/TestData/'' @ n @ ''.snappy''), Endl,
      Endl] \<and>
   cout (snd (main C E w)) =
     cout w @ banner @ concat (map (\<lambda>(n, i). report_block C n i) corpus) @ footer \<and>
   take 7 (drop (length (cout w) + length banner) (cout (snd (main C E w)))) =
     [Str ''empty'', Str '':'', Endl, Str ''  Input size: '', Size 0, Str '' bytes'', Endl]"
proof -
  have "take 7 (concat (map (\<lambda>(n, i). report_block C n i) corpus) @ footer) =
     [Str ''empty'', Str '':'', Endl, Str ''  Input size: '', Size 0, Str '' bytes'', Endl]"
    by (simp add: corpus_def report_block_def)
  then show ?thesis
    by (simp add: writeTestCase_cout main_cout report_block_def filename_of_def)
qed

text \<open>
  Claim C5. Running \<^verbatim>\<open>writeTestCase\<close> a second time on the same entry leaves every
  file as the first run left it, and so does a second run of \<^verbatim>\<open>main\<close>: the open
  truncates, and the compressed bytes depend on the input only. If the environment
  of the second run differs from that of the first and the open and the write succeed
  in both, the artifact holds the same compressed bytes after each.
\<close>

theorem C5_rerun_same_artifact:
  "files (writeTestCase C E n i (writeTestCase C E n i w)) = files (writeTestCase C E n i w) \<and>
   files (snd (main C E (snd (main C E w)))) = files (snd (main C E w)) \<and>
   (E1 (filename_of n) = Succeeds \<longrightarrow> E2 (filename_of n) = Succeeds \<longrightarrow>
      files (writeTestCase C E1 n i w) (filename_of n) = Some (snd (C i)) \<and>
      files (writeTestCase C E2 n i (writeTestCase C E1 n i w)) (filename_of n) =
        Some (snd (C i)))"
proof -
  have once: "files (writeTestCase C E n i (writeTestCase C E n i w)) =
      files (writeTestCase C E n i w)"
    by (simp add: writeTestCase_files stored_idem)
  have twice: "files (snd (main C E (snd (main C E w)))) = files (snd (main C E w))"
  proof (rule ext)
    fix p
    show "files (snd (main C E (snd (main C E w)))) p = files (snd (main C E w)) p"
    proof (cases "p \<in> filename_of ` fst ` set corpus")
      case False
      then show ?thesis
        by (simp add: main_files_other)
    next
      case True
      then obtain m j where mj: "(m, j) \<in> set corpus" and p: "p = filename_of m"
        by auto
      show ?thesis
        unfolding p by (simp add: main_files_entry [OF mj] stored_idem)
    qed
  qed
  from once twice show ?thesis
    by (simp add: writeTestCase_files stored_def)
qed

theorem C5_rerun_same_artifact_witness:
  "files (writeTestCase raw_copy all_ok ''hello'' ''Hello, World!''
            (writeTestCase raw_copy all_ok ''hello'' ''Hello, World!'' fresh))
     (filename_of ''hello'') = Some ''Hello, World!'' \<and>
   files (writeTestCase raw_copy all_ok ''hello'' ''Hello, World!'' fresh)
     (filename_of ''hello'') = Some ''Hello, World!''"
  using C5_rerun_same_artifact [of raw_copy all_ok "''hello''" "''Hello, World!''" fresh all_ok all_ok]
  by (simp add: all_ok_def raw_copy_def)

text \<open>
  Claim C6. When the output directory holds no file at the start and the open and the
  write of each of the ten artifacts succeed, the files in the output directory after
  \<^verbatim>\<open>main\<close> are exactly the ten paths derived from the corpus names, one for each
  entry, each file holds the compressed bytes of its entry's input, and the output
  holds exactly one block for each entry: ten blocks.
\<close>

theorem C6_one_artifact_per_entry:
  assumes "\<forall>p. in_output_dir p \<longrightarrow> files w p = None"
    and "\<forall>n \<in> set (map fst corpus). E (filename_of n) = Succeeds"
  shows "{p \<in> dom (files (snd (main C E w))). in_output_dir p} =
      filename_of ` set (map fst corpus) \<and>
    card {p \<in> dom (files (snd (main C E w))). in_output_dir p} = 10 \<and>
    (\<forall>(n, i) \<in> set corpus. files (snd (main C E w)) (filename_of n) = Some (snd (C i))) \<and>
    map fst corpus =
      [''empty'', ''single_byte'', ''hello'', ''repeated'', ''pattern'', ''longer_text'',
       ''ascii'', ''large'', ''mixed'', ''numbers''] \<and>
    cout (snd (main C E w)) =
      cout w @ banner @ concat (map (\<lambda>(n, i). report_block C n i) corpus) @ footer \<and>
    length (map (\<lambda>(n, i). report_block C n i) corpus) = 10"
proof -
  from assms(2) have opened: "\<forall>n \<in> set (map fst corpus). E (filename_of n) \<noteq> OpenFails"
    by simp
  have d: "{p \<in> dom (files (snd (main C E w))). in_output_dir p} =
      filename_of ` set (map fst corpus)"
    using assms(1) opened by (auto simp: main_files_dom_general filename_in_output_dir)
  have "card (filename_of ` set (map fst corpus)) = card (set (map fst corpus))"
    by (rule card_image) (simp add: inj_on_def)
  also have "\<dots> = length (map fst corpus)"
    by (rule distinct_card) (rule corpus_distinct)
  finally have c: "card (filename_of ` set (map fst corpus)) = 10"
    by (simp add: corpus_length)
  have content: "\<forall>(n, i) \<in> set corpus.
      files (snd (main C E w)) (filename_of n) = Some (snd (C i))"
  proof (clarify)
    fix n i
    assume ni: "(n, i) \<in> set corpus"
    then have "n \<in> set (map fst corpus)"
      by force
    with assms(2) have "E (filename_of n) = Succeeds"
      by blast
    then show "files (snd (main C E w)) (filename_of n) = Some (snd (C i))"
      by (simp add: main_files_entry [OF ni] stored_def)
  qed
  from d c content show ?thesis
    by (simp add: main_cout corpus_length corpus_names [symmetric])
qed

theorem C6_one_artifact_per_entry_witness:
  "card {p \<in> dom (files (snd (main raw_copy all_ok fresh))). in_output_dir p} = 10 \<and>
   {p \<in> dom (files (snd (main raw_copy all_ok fresh))). in_output_dir p} =
     {''Tests/SnappySwiftTests/TestData/empty.snappy'',
      ''Tests/SnappySwiftTests/TestData/single_byte.snappy'',
      ''Tests/SnappySwiftTests/TestData/hello.snappy'',
      ''Tests/SnappySwiftTests/TestData/repeated.snappy'',
      ''Tests/SnappySwiftTests/TestData/pattern.snappy'',
      ''Tests/SnappySwiftTests/TestData/longer_text.snappy'',
      ''Tests/SnappySwiftTests/TestData/ascii.snappy'',
      ''Tests/SnappySwiftTests/TestData/large.snappy'',
      ''Tests/SnappySwiftTests/TestData/mixed.snappy'',
      ''Tests/SnappySwiftTests/TestData/numbers.snappy''} \<and>
   files (snd (main raw_copy all_ok fresh)) ''Tests/SnappySwiftTests/TestData/hello.snappy'' =
     Some ''Hello, World!'' \<and>
   files (snd (main raw_copy all_ok fresh)) ''Tests/SnappySwiftTests/TestData/mixed.snappy'' =
     Some ''AAAAAAAbbbbbCCCCCdddEEFF1234567890''"
proof -
  have a: "\<forall>p. in_output_dir p \<longrightarrow> files fresh p = None"
    by (simp add: fresh_def)
  have b: "\<forall>n \<in> set (map fst corpus). all_ok (filename_of n) = Succeeds"
    by (simp add: all_ok_def)
  note r = C6_one_artifact_per_entry [OF a b, of raw_copy]
  from r have d: "{p \<in> dom (files (snd (main raw_copy all_ok fresh))). in_output_dir p} =
      filename_of ` set (map fst corpus)"
    by (rule conjunct1)
  from r have c: "card {p \<in> dom (files (snd (main raw_copy all_ok fresh))). in_output_dir p} = 10"
    by blast
  from r have content: "\<forall>(n, i) \<in> set corpus.
      files (snd (main raw_copy all_ok fresh)) (filename_of n) = Some (snd (raw_copy i))"
    by blast
  have h: "(''hello'', ''Hello, World!'') \<in> set corpus"
    and m: "(''mixed'', ''AAAAAAAbbbbbCCCCCdddEEFF1234567890'') \<in> set corpus"
    by (simp_all add: corpus_def)
  from content h have hello: "files (snd (main raw_copy all_ok fresh)) (filename_of ''hello'') =
      Some (snd (raw_copy ''Hello, World!''))"
    by blast
  from content m have mixed: "files (snd (main raw_copy all_ok fresh)) (filename_of ''mixed'') =
      Some (snd (raw_copy ''AAAAAAAbbbbbCCCCCdddEEFF1234567890''))"
    by blast
  have "{p \<in> dom (files (snd (main raw_copy all_ok fresh))). in_output_dir p} =
     {''Tests/SnappySwiftTests/TestData/empty.snappy'',
      ''Tests/SnappySwiftTests/TestData/single_byte.snappy'',
      ''Tests/SnappySwiftTests/TestData/hello.snappy'',
      ''Tests/SnappySwiftTests/TestData/repeated.snappy'',
      ''Tests/SnappySwiftTests/TestData/pattern.snappy'',
      ''Tests/SnappySwiftTests/TestData/longer_text.snappy'',
      ''Tests/SnappySwiftTests/TestData/ascii.snappy'',
      ''Tests/SnappySwiftTests/TestData/large.snappy'',
      ''Tests/SnappySwiftTests/TestData/mixed.snappy'',
      ''Tests/SnappySwiftTests/TestData/numbers.snappy''}"
    unfolding d corpus_names by (simp add: filename_of_def)
  with c hello mixed show ?thesis
    by (simp add: filename_of_def raw_copy_def)
qed

text \<open>
  Claim C7. The names of the corpus entries are pairwise distinct; the path of an
  artifact is the fixed directory, the name and \<^verbatim>\<open>.snappy\<close>, which is an injective
  function of the name; so the ten entries write to ten different paths.
\<close>

theorem C7_names_distinct:
  "distinct (map fst corpus) \<and>
   (\<forall>n. filename_of n = ''Tests/SnappySwiftTests/TestData/'' @ n @ ''.snappy'') \<and>
   inj filename_of \<and>
   distinct (map (filename_of \<circ> fst) corpus)"
proof -
  have inj: "inj filename_of"
    by (rule injI) simp
  have "distinct (map filename_of (map fst corpus))"
    using corpus_distinct inj by (simp add: distinct_map inj_on_def)
  then show ?thesis
    using corpus_distinct inj by (simp add: filename_of_def)
qed

theorem C7_names_distinct_witness:
  "filename_of ''empty'' \<noteq> filename_of ''single_byte'' \<and>
   distinct [''empty'', ''single_byte'', ''hello'', ''repeated'', ''pattern'', ''longer_text'',
      ''ascii'', ''large'', ''mixed'', ''numbers'']"
  using C7_names_distinct by (simp add: corpus_names inj_eq)

text \<open>
  Claim C9. The input of the entry \<^verbatim>\<open>ascii\<close> is the byte values 32, 33, ..., 126 in
  increasing order, each exactly once: 95 bytes.
\<close>

theorem C9_ascii_input:
  "(''ascii'', ascii_loop 32 '''') \<in> set corpus \<and>
   map of_char (ascii_loop 32 '''') = [32..<127::nat] \<and>
   length (ascii_loop 32 '''') = 95 \<and>
   distinct (ascii_loop 32 '''') \<and>
   sorted_wrt (<) (map of_char (ascii_loop 32 '''') :: nat list)"
proof -
  have "length (map of_char (ascii_loop 32 '''') :: nat list) = 95"
    unfolding ascii_value by simp
  then have len: "length (ascii_loop 32 '''') = 95"
    by simp
  have "distinct (map of_char (ascii_loop 32 '''') :: nat list)"
    unfolding ascii_value by simp
  then have dist: "distinct (ascii_loop 32 '''')"
    by (simp add: distinct_map)
  have srt: "sorted_wrt (<) (map of_char (ascii_loop 32 '''') :: nat list)"
    unfolding ascii_value by (rule sorted_wrt_upt)
  have mem: "(''ascii'', ascii_loop 32 '''') \<in> set corpus"
    by (simp add: corpus_def)
  from mem ascii_value len dist srt show ?thesis
    by blast
qed

text \<open>
  Claim C10. In every environment \<^verbatim>\<open>main\<close> returns 0 and prints the complete block
  of every entry, ``Saved to'' line included, since nothing that the compression
  call, the open or the write reports is looked at. Where the open of an entry's
  artifact fails, the path is left as it was (no file, if there was none); where the
  write stops short, the file holds a proper prefix of the compressed bytes, which is
  not the artifact.
\<close>

theorem C10_always_reports_success:
  "fst (main C E w) = 0 \<and>
   cout (snd (main C E w)) =
     cout w @ banner @ concat (map (\<lambda>(n, i). report_block C n i) corpus) @ footer \<and>
   (\<forall>n i. (n, i) \<in> set corpus \<longrightarrow> E (filename_of n) = OpenFails \<longrightarrow>
      files (snd (main C E w)) (filename_of n) = files w (filename_of n)) \<and>
   (\<forall>n i k. (n, i) \<in> set corpus \<longrightarrow> E (filename_of n) = WriteStops k \<longrightarrow>
      k < length (snd (C i)) \<longrightarrow>
      files (snd (main C E w)) (filename_of n) = Some (take k (snd (C i))) \<and>
      files (snd (main C E w)) (filename_of n) \<noteq> Some (snd (C i)))"
proof -
  have short: "take k d \<noteq> d" if "k < length d" for k and d :: string
  proof
    assume "take k d = d"
    then have "length (take k d) = length d" by simp
    with that show False by simp
  qed
  show ?thesis
    by (simp add: main_exit main_cout main_files_entry stored_def short)
qed

theorem C10_always_reports_success_witness:
  "fst (main raw_copy no_directory fresh) = 0 \<and>
   files (snd (main raw_copy no_directory fresh)) (filename_of ''hello'') = None \<and>
   files (snd (main raw_copy disk_full fresh)) (filename_of ''hello'') = Some ''''"
proof -
  have h: "(''hello'', ''Hello, World!'') \<in> set corpus"
    by (simp add: corpus_def)
  have a: "no_directory (filename_of ''hello'') = OpenFails"
    by (simp add: no_directory_def)
  have b: "disk_full (filename_of ''hello'') = WriteStops 0"
    by (simp add: disk_full_def)
  have c: "0 < length (snd (raw_copy ''Hello, World!''))"
    by (simp add: raw_copy_def)
  from C10_always_reports_success [of raw_copy no_directory fresh]
    C10_always_reports_success [of raw_copy disk_full fresh] h a b c
  show ?thesis
    by (auto simp: fresh_def)
qed

end
